theory Spec2Isabelle
  imports Complex_Main "HOL-Library.Sublist"
begin

section \<open>Data model\<close>

text \<open>
  The wait-for-completion logic of \<^verbatim>\<open>legion/cli.py\<close>:
  \<^verbatim>\<open>get_related_model_deployments\<close>, \<^verbatim>\<open>wait_operation_finish\<close>,
  \<^verbatim>\<open>check_all_scaled\<close>, \<^verbatim>\<open>undeploy_kubernetes\<close>, \<^verbatim>\<open>scale_kubernetes\<close>
  and \<^verbatim>\<open>deploy_kubernetes\<close>.

  A deployment descriptor is an object of the class \<^verbatim>\<open>ModelDeploymentDescription\<close>,
  whose declaration is outside \<^verbatim>\<open>cli.py\<close>. The record has the attributes that
  \<^verbatim>\<open>cli.py\<close> reads. The attribute \<^verbatim>\<open>id_and_version\<close> is taken as it is read: a
  value compared for equality and hashed. The attribute \<^verbatim>\<open>model_api_ok\<close> is tested
  for truth only, so it is an optional boolean: \<open>None\<close> is a flag that is not set.
  The attributes \<^verbatim>\<open>image\<close> and \<^verbatim>\<open>scale\<close> carry the suffix \<open>_d\<close>.
\<close>

record deployment =
  model :: string
  version :: string
  id_and_version :: string
  image_d :: string
  scale_d :: int
  ready_replicas :: int
  status :: string
  model_api_ok :: "bool option"

text \<open>
  The exceptions that leave the functions: the two that \<^verbatim>\<open>wait_operation_finish\<close>
  raises itself, and whatever a call of the EDI client raises, which none of the functions
  catches.
\<close>

datatype error =
    InvalidTimeout  \<comment> \<open>\<^verbatim>\<open>Exception('Invalid --timeout argument: should be positive integer')\<close>\<close>
  | TimeOut         \<comment> \<open>\<^verbatim>\<open>Exception('Time out: operation has not been confirmed')\<close>\<close>
  | ClientError string  \<comment> \<open>raised inside a call of the EDI client\<close>

text \<open>
  The command arguments (\<^verbatim>\<open>argparse.Namespace\<close>) read by the three operations.
  \<^verbatim>\<open>args.image\<close> carries the suffix \<open>_a\<close>.
\<close>

record args =
  image_a :: string
  model_iam_role :: "string option"
  scale :: int
  livenesstimeout :: int
  readinesstimeout :: int
  model_id :: string
  model_version :: "string option"
  grace_period :: int
  ignore_not_found :: bool
  no_wait :: bool
  timeout :: int

section \<open>The outside world: clock and EDI client\<close>

text \<open>
  Everything the functions do to the outside is recorded, in order, in a trace of events.
  A status query records what the client returned; a call of the completion callback
  records its argument and its result.
\<close>

datatype event =
    Clock                                   \<comment> \<open>\<^verbatim>\<open>time.time()\<close>\<close>
  | Sleep                                   \<comment> \<open>\<^verbatim>\<open>time.sleep(1)\<close>\<close>
  | Inspect "error + deployment list"       \<comment> \<open>\<^verbatim>\<open>client.inspect()\<close> and its outcome\<close>
  | Evaluate "deployment list" "bool option" \<comment> \<open>\<^verbatim>\<open>wait_callback(...)\<close>, argument and result\<close>
  | DeployRequest                           \<comment> \<open>\<^verbatim>\<open>edi_client.deploy(...)\<close>\<close>
  | ScaleRequest                            \<comment> \<open>\<^verbatim>\<open>edi_client.scale(...)\<close>\<close>
  | UndeployRequest                         \<comment> \<open>\<^verbatim>\<open>edi_client.undeploy(...)\<close>\<close>

type_synonym trace = "event list"

text \<open>
  The environment fixes what the outside answers: the reading of the \<open>n\<close>-th call of
  \<^verbatim>\<open>time.time()\<close> (the value of the float, as a real number; no assumption that
  readings grow), the outcome of the \<open>n\<close>-th call of \<^verbatim>\<open>client.inspect()\<close>, and the
  outcome of each mutation request. An outcome \<open>Inl e\<close> is an exception raised by the
  client.

  \<^verbatim>\<open>time.time() - start\<close> is a subtraction of floats, whose result is rounded. The
  operation is the field \<open>float_sub\<close> of the environment, and nothing is assumed of it:
  what is proved holds for every subtraction, the rounding one of the machine among them.
  The comparison of the difference with the integer timeout is exact in Python, as it is
  here.
\<close>

record env =
  clock :: "nat \<Rightarrow> real"
  float_sub :: "real \<Rightarrow> real \<Rightarrow> real"
  inspect_reply :: "nat \<Rightarrow> error + deployment list"
  deploy_reply :: "string \<Rightarrow> string option \<Rightarrow> int \<Rightarrow> int \<Rightarrow> int \<Rightarrow> error + deployment list"
  scale_reply :: "string \<Rightarrow> int \<Rightarrow> string option \<Rightarrow> error + deployment list"
  undeploy_reply :: "string \<Rightarrow> int \<Rightarrow> string option \<Rightarrow> bool \<Rightarrow> error + deployment list"

fun is_inspect :: "event \<Rightarrow> bool" where
  "is_inspect (Inspect r) = True"
| "is_inspect e = False"

definition queries :: "trace \<Rightarrow> nat" where
  "queries tr = length (filter is_inspect tr)"

definition clock_reads :: "trace \<Rightarrow> nat" where
  "clock_reads tr = count_list tr Clock"

definition sleeps :: "trace \<Rightarrow> nat" where
  "sleeps tr = count_list tr Sleep"

definition time_time :: "env \<Rightarrow> trace \<Rightarrow> real \<times> trace" where
  "time_time e tr = (clock e (clock_reads tr), tr @ [Clock])"

definition time_sleep :: "trace \<Rightarrow> trace" where
  "time_sleep tr = tr @ [Sleep]"

definition client_inspect :: "env \<Rightarrow> trace \<Rightarrow> (error + deployment list) \<times> trace" where
  "client_inspect e tr = (let r = inspect_reply e (queries tr) in (r, tr @ [Inspect r]))"

text \<open>Truth value of a callback result of type \<^verbatim>\<open>Optional[bool]\<close>, and of a list.\<close>

definition truthy :: "bool option \<Rightarrow> bool" where
  "truthy r = (r = Some True)"

definition list_truthy :: "'a list \<Rightarrow> bool" where
  "list_truthy xs = (length xs \<noteq> 0)"

section \<open>The functions of \<^verbatim>\<open>cli.py\<close>\<close>

definition get_related_model_deployments ::
    "env \<Rightarrow> deployment list \<Rightarrow> trace \<Rightarrow> (error + deployment list) \<times> trace" where
  "get_related_model_deployments client affected_deployments tr =
     (let affected_deployment_ids = id_and_version ` set affected_deployments in
      case client_inspect client tr of
        (Inl exn, tr') \<Rightarrow> (Inl exn, tr')
      | (Inr actual_deployments_status, tr') \<Rightarrow>
          (Inr [deploy \<leftarrow> actual_deployments_status.
                  id_and_version deploy \<in> affected_deployment_ids], tr'))"

definition check_all_scaled :: "deployment list \<Rightarrow> int \<Rightarrow> int \<Rightarrow> bool" where
  "check_all_scaled deployments_status expected_scale expected_count =
     (let finally_deployed_models =
            [deployment \<leftarrow> deployments_status.
               ready_replicas deployment = expected_scale \<and> truthy (model_api_ok deployment)]
      in int (length finally_deployed_models) = expected_count)"

text \<open>
  One pass through the body of \<^verbatim>\<open>while True\<close>. The result \<open>None\<close> is the end of the
  body after \<^verbatim>\<open>time.sleep(1)\<close>: the loop goes round again. \<open>Some (Inr ())\<close> is
  \<^verbatim>\<open>break\<close>, \<open>Some (Inl e)\<close> an exception.
\<close>

definition loop_body ::
    "env \<Rightarrow> args \<Rightarrow> deployment list \<Rightarrow> (deployment list \<Rightarrow> bool option) \<Rightarrow> real \<Rightarrow> trace
       \<Rightarrow> (error + unit) option \<times> trace" where
  "loop_body edi_client a model_deployments wait_callback start tr =
     (let (now, tr1) = time_time edi_client tr;
          elapsed = float_sub edi_client now start
      in
        if elapsed > real_of_int (timeout a) then (Some (Inl TimeOut), tr1)
        else
          case get_related_model_deployments edi_client model_deployments tr1 of
            (Inl exn, tr2) \<Rightarrow> (Some (Inl exn), tr2)
          | (Inr affected_deployments_status, tr2) \<Rightarrow>
              let result = wait_callback affected_deployments_status;
                  tr3 = tr2 @ [Evaluate affected_deployments_status result]
              in if truthy result then (Some (Inr ()), tr3)
                 else (None, time_sleep tr3))"

text \<open>The loop itself may run forever: then its value is \<open>None\<close>.\<close>

partial_function (option) wait_loop ::
    "env \<Rightarrow> args \<Rightarrow> deployment list \<Rightarrow> (deployment list \<Rightarrow> bool option) \<Rightarrow> real \<Rightarrow> trace
       \<Rightarrow> ((error + unit) \<times> trace) option" where
  "wait_loop edi_client a model_deployments wait_callback start tr =
     (case loop_body edi_client a model_deployments wait_callback start tr of
        (Some outcome, tr') \<Rightarrow> Some (outcome, tr')
      | (None, tr') \<Rightarrow> wait_loop edi_client a model_deployments wait_callback start tr')"

definition wait_operation_finish ::
    "args \<Rightarrow> env \<Rightarrow> deployment list \<Rightarrow> (deployment list \<Rightarrow> bool option) \<Rightarrow> trace
       \<Rightarrow> ((error + unit) \<times> trace) option" where
  "wait_operation_finish a edi_client model_deployments wait_callback tr =
     (if \<not> no_wait a then
        let (start, tr1) = time_time edi_client tr in
          if timeout a \<le> 0 then Some (Inl InvalidTimeout, tr1)
          else wait_loop edi_client a model_deployments wait_callback start tr1
      else Some (Inr (), tr))"

text \<open>
  The three operations. The client is the one \<^verbatim>\<open>build_client(args)\<close> returns; the
  callbacks are the \<^verbatim>\<open>lambda\<close> expressions of the source. The one of
  \<^verbatim>\<open>undeploy_kubernetes\<close> gets a name, \<open>undeploy_callback\<close>.
\<close>

definition undeploy_callback :: "deployment list \<Rightarrow> bool option" where
  \<comment> \<open>\<^verbatim>\<open>lambda affected_deployments_status: not affected_deployments_status\<close>\<close>
  "undeploy_callback affected_deployments_status =
     Some (\<not> list_truthy affected_deployments_status)"

definition undeploy_kubernetes :: "args \<Rightarrow> env \<Rightarrow> trace \<Rightarrow> ((error + unit) \<times> trace) option" where
  "undeploy_kubernetes a edi_client tr =
     (case undeploy_reply edi_client (model_id a) (grace_period a) (model_version a)
             (ignore_not_found a) of
        Inl exn \<Rightarrow> Some (Inl exn, tr @ [UndeployRequest])
      | Inr model_deployments \<Rightarrow>
          wait_operation_finish a edi_client model_deployments undeploy_callback
            (tr @ [UndeployRequest]))"

definition scale_kubernetes :: "args \<Rightarrow> env \<Rightarrow> trace \<Rightarrow> ((error + unit) \<times> trace) option" where
  "scale_kubernetes a edi_client tr =
     (case scale_reply edi_client (model_id a) (scale a) (model_version a) of
        Inl exn \<Rightarrow> Some (Inl exn, tr @ [ScaleRequest])
      | Inr model_deployments \<Rightarrow>
          wait_operation_finish a edi_client model_deployments
            (\<lambda>affected_deployments_status.
               Some (check_all_scaled affected_deployments_status (scale a)
                       (int (length model_deployments))))
            (tr @ [ScaleRequest]))"

definition deploy_kubernetes :: "args \<Rightarrow> env \<Rightarrow> trace \<Rightarrow> ((error + unit) \<times> trace) option" where
  "deploy_kubernetes a edi_client tr =
     (case deploy_reply edi_client (image_a a) (model_iam_role a) (scale a) (livenesstimeout a)
             (readinesstimeout a) of
        Inl exn \<Rightarrow> Some (Inl exn, tr @ [DeployRequest])
      | Inr model_deployments \<Rightarrow>
          wait_operation_finish a edi_client model_deployments
            (\<lambda>affected_deployments_status.
               Some (check_all_scaled affected_deployments_status (scale a)
                       (int (length model_deployments))))
            (tr @ [DeployRequest]))"

section \<open>Reading a trace\<close>

text \<open>
  The filter of \<^verbatim>\<open>get_related_model_deployments\<close>, written once for the statements
  below; the snapshots that status queries returned, and the arguments and results of the
  callback calls, in the order of the trace.
\<close>

definition affected_only :: "deployment list \<Rightarrow> deployment list \<Rightarrow> deployment list" where
  "affected_only A S = [d \<leftarrow> S. id_and_version d \<in> id_and_version ` set A]"

fun snapshots :: "trace \<Rightarrow> deployment list list" where
  "snapshots [] = []"
| "snapshots (Inspect (Inr S) # tr) = S # snapshots tr"
| "snapshots (ev # tr) = snapshots tr"

fun evaluations :: "trace \<Rightarrow> (deployment list \<times> bool option) list" where
  "evaluations [] = []"
| "evaluations (Evaluate xs r # tr) = (xs, r) # evaluations tr"
| "evaluations (ev # tr) = evaluations tr"

text \<open>
  The trace of \<open>k\<close> passes through the loop body in each of which the status query
  returned \<open>snap i\<close> and the callback was called; each ends with the sleep.
\<close>

fun idle_rounds ::
    "deployment list \<Rightarrow> (deployment list \<Rightarrow> bool option) \<Rightarrow> (nat \<Rightarrow> deployment list) \<Rightarrow> nat
       \<Rightarrow> trace" where
  "idle_rounds A cb snap 0 = []"
| "idle_rounds A cb snap (Suc k) =
     idle_rounds A cb snap k @
       [Clock, Inspect (Inr (snap k)),
        Evaluate (affected_only A (snap k)) (cb (affected_only A (snap k))), Sleep]"

text \<open>
  A piece of trace is \<open>polled\<close> when its callback calls are, in order, its snapshots
  filtered against the identities of \<open>A\<close>, each with the result of \<open>cb\<close> on it.
\<close>

definition polled :: "deployment list \<Rightarrow> (deployment list \<Rightarrow> bool option) \<Rightarrow> trace \<Rightarrow> bool" where
  "polled A cb new \<longleftrightarrow>
     evaluations new = map (\<lambda>S. (affected_only A S, cb (affected_only A S))) (snapshots new)"

text \<open>The trace after at most \<open>n\<close> passes through the loop body, whether or not the loop ends.\<close>

fun after_iterations ::
    "nat \<Rightarrow> env \<Rightarrow> args \<Rightarrow> deployment list \<Rightarrow> (deployment list \<Rightarrow> bool option) \<Rightarrow> real \<Rightarrow> trace
       \<Rightarrow> trace" where
  "after_iterations 0 e a A cb start tr = tr"
| "after_iterations (Suc n) e a A cb start tr =
     (case loop_body e a A cb start tr of
        (Some outcome, tr') \<Rightarrow> tr'
      | (None, tr') \<Rightarrow> after_iterations n e a A cb start tr')"

section \<open>Sample inputs\<close>

definition dep :: "string \<Rightarrow> int \<Rightarrow> bool option \<Rightarrow> deployment" where
  "dep i r ok = \<lparr>model = i, version = ''1.0'', id_and_version = i, image_d = ''img'',
     scale_d = 2, ready_replicas = r, status = ''ok'', model_api_ok = ok\<rparr>"

definition sample_args :: args where
  "sample_args = \<lparr>image_a = ''img'', model_iam_role = None, scale = 2, livenesstimeout = 2,
     readinesstimeout = 2, model_id = ''m'', model_version = None, grace_period = 0,
     ignore_not_found = False, no_wait = False, timeout = 5\<rparr>"

text \<open>
  A client whose every request returns: the mutation affects the deployment \<open>m\<close>, the first
  two status queries see it with one replica ready, the later ones with two. The clock
  advances by one at each reading; on such readings (small whole numbers) the subtraction
  of floats is exact.
\<close>

definition sample_snap :: "nat \<Rightarrow> deployment list" where
  "sample_snap n = (if n < 2 then [dep ''m'' 1 (Some True), dep ''x'' 2 (Some True)]
                    else [dep ''m'' 2 (Some True), dep ''x'' 2 (Some True)])"

definition sample_env :: env where
  "sample_env = \<lparr>clock = (\<lambda>n. real n),
     float_sub = (\<lambda>x y. x - y),
     inspect_reply = (\<lambda>n. Inr (sample_snap n)),
     deploy_reply = (\<lambda>img role n l r. Inr [dep ''m'' 0 None]),
     scale_reply = (\<lambda>i n v. Inr [dep ''m'' 0 None]),
     undeploy_reply = (\<lambda>i g v ign. Inr [dep ''m'' 0 None])\<rparr>"

text \<open>A client whose mutation requests affect no deployment.\<close>

definition idle_env :: env where
  "idle_env = \<lparr>clock = (\<lambda>n. real n),
     float_sub = (\<lambda>x y. x - y),
     inspect_reply = (\<lambda>n. Inr (sample_snap n)),
     deploy_reply = (\<lambda>img role n l r. Inr []),
     scale_reply = (\<lambda>i n v. Inr []),
     undeploy_reply = (\<lambda>i g v ign. Inr [])\<rparr>"

text \<open>A client whose every request raises.\<close>

definition failing_env :: env where
  "failing_env = \<lparr>clock = (\<lambda>n. real n),
     float_sub = (\<lambda>x y. x - y),
     inspect_reply = (\<lambda>n. Inl (ClientError ''unreachable'')),
     deploy_reply = (\<lambda>img role n l r. Inl (ClientError ''unreachable'')),
     scale_reply = (\<lambda>i n v. Inl (ClientError ''unreachable'')),
     undeploy_reply = (\<lambda>i g v ign. Inl (ClientError ''unreachable''))\<rparr>"

section \<open>Counting events\<close>

lemma queries_append: "queries (tr @ tr') = queries tr + queries tr'"
  by (simp add: queries_def)

lemma clock_reads_append: "clock_reads (tr @ tr') = clock_reads tr + clock_reads tr'"
  by (simp add: clock_reads_def)

lemma sleeps_append: "sleeps (tr @ tr') = sleeps tr + sleeps tr'"
  by (simp add: sleeps_def)

lemma queries_Cons:
  "queries [] = 0"
  "queries (Inspect r # tr) = Suc (queries tr)"
  "queries (Clock # tr) = queries tr"
  "queries (Sleep # tr) = queries tr"
  "queries (Evaluate xs b # tr) = queries tr"
  "queries (DeployRequest # tr) = queries tr"
  "queries (ScaleRequest # tr) = queries tr"
  "queries (UndeployRequest # tr) = queries tr"
  by (simp_all add: queries_def)

lemma clock_reads_Cons:
  "clock_reads [] = 0"
  "clock_reads (Clock # tr) = Suc (clock_reads tr)"
  "clock_reads (Inspect r # tr) = clock_reads tr"
  "clock_reads (Sleep # tr) = clock_reads tr"
  "clock_reads (Evaluate xs b # tr) = clock_reads tr"
  "clock_reads (DeployRequest # tr) = clock_reads tr"
  "clock_reads (ScaleRequest # tr) = clock_reads tr"
  "clock_reads (UndeployRequest # tr) = clock_reads tr"
  by (simp_all add: clock_reads_def)

lemma sleeps_Cons:
  "sleeps [] = 0"
  "sleeps (Sleep # tr) = Suc (sleeps tr)"
  "sleeps (Inspect r # tr) = sleeps tr"
  "sleeps (Clock # tr) = sleeps tr"
  "sleeps (Evaluate xs b # tr) = sleeps tr"
  "sleeps (DeployRequest # tr) = sleeps tr"
  "sleeps (ScaleRequest # tr) = sleeps tr"
  "sleeps (UndeployRequest # tr) = sleeps tr"
  by (simp_all add: sleeps_def)

lemmas count_simps =
  queries_append clock_reads_append sleeps_append queries_Cons clock_reads_Cons sleeps_Cons

lemma idle_rounds_counts:
  "queries (idle_rounds A cb snap k) = k"
  "clock_reads (idle_rounds A cb snap k) = k"
  "sleeps (idle_rounds A cb snap k) = k"
  by (induction k) (simp_all add: count_simps)

lemma count_list_filter:
  "count_list (filter P xs) d = (if P d then count_list xs d else 0)"
  by (induction xs) auto

section \<open>The filter\<close>

lemma get_related_Inr:
  "inspect_reply e (queries tr) = Inr S \<Longrightarrow>
   get_related_model_deployments e A tr = (Inr (affected_only A S), tr @ [Inspect (Inr S)])"
  by (simp add: get_related_model_deployments_def client_inspect_def affected_only_def Let_def)

lemma get_related_Inl:
  "inspect_reply e (queries tr) = Inl x \<Longrightarrow>
   get_related_model_deployments e A tr = (Inl x, tr @ [Inspect (Inl x)])"
  by (simp add: get_related_model_deployments_def client_inspect_def Let_def)

text \<open>
  C1. When the status query returns the snapshot \<open>S\<close>, the function returns the descriptors
  of \<open>S\<close> whose \<^verbatim>\<open>id_and_version\<close> is that of some element of \<open>A\<close>: the same
  elements (no extras, no omissions), each as often as in \<open>S\<close> and in the order of \<open>S\<close>.
  Its only effect is the one status query. The lists \<open>A\<close> and \<open>S\<close> are read only; the
  result is a list of its own.
\<close>

theorem get_related_model_deployments_exact:
  assumes "inspect_reply client (queries tr) = Inr S"
  shows "\<exists>R. get_related_model_deployments client A tr = (Inr R, tr @ [Inspect (Inr S)])
           \<and> set R = {d \<in> set S. id_and_version d \<in> id_and_version ` set A}
           \<and> (\<forall>d. count_list R d =
                  (if id_and_version d \<in> id_and_version ` set A then count_list S d else 0))
           \<and> subseq R S"
  using assms
  by (simp add: get_related_model_deployments_def client_inspect_def count_list_filter Let_def)

theorem get_related_model_deployments_exact_witness:
  "inspect_reply sample_env (queries []) =
       Inr [dep ''m'' 1 (Some True), dep ''x'' 2 (Some True)]
   \<and> (\<exists>R. get_related_model_deployments sample_env [dep ''m'' 0 None] [] =
            (Inr R, [] @ [Inspect (Inr [dep ''m'' 1 (Some True), dep ''x'' 2 (Some True)])])
          \<and> set R = {d \<in> set [dep ''m'' 1 (Some True), dep ''x'' 2 (Some True)].
                       id_and_version d \<in> id_and_version ` set [dep ''m'' 0 None]}
          \<and> (\<forall>d. count_list R d =
                 (if id_and_version d \<in> id_and_version ` set [dep ''m'' 0 None]
                  then count_list [dep ''m'' 1 (Some True), dep ''x'' 2 (Some True)] d else 0))
          \<and> subseq R [dep ''m'' 1 (Some True), dep ''x'' 2 (Some True)])
   \<and> get_related_model_deployments sample_env [dep ''m'' 0 None] [] =
       (Inr [dep ''m'' 1 (Some True)],
        [Inspect (Inr [dep ''m'' 1 (Some True), dep ''x'' 2 (Some True)])])"
proof -
  have reply: "inspect_reply sample_env (queries []) =
      Inr [dep ''m'' 1 (Some True), dep ''x'' 2 (Some True)]"
    by (simp add: sample_env_def sample_snap_def queries_def)
  have run: "get_related_model_deployments sample_env [dep ''m'' 0 None] [] =
       (Inr [dep ''m'' 1 (Some True)],
        [Inspect (Inr [dep ''m'' 1 (Some True), dep ''x'' 2 (Some True)])])"
    by (simp add: get_related_Inr [OF reply] affected_only_def dep_def)
  show ?thesis
    using reply run get_related_model_deployments_exact [OF reply, of "[dep ''m'' 0 None]"]
    by blast
qed

section \<open>The completion predicates\<close>

text \<open>
  C2. \<^verbatim>\<open>check_all_scaled(D, N, K)\<close> is true exactly when \<open>K\<close> is the number of
  positions of \<open>D\<close> whose descriptor has \<open>N\<close> ready replicas and a true \<^verbatim>\<open>model_api_ok\<close>.
  A descriptor whose flag is false or not set is not counted, whatever its replica count.
\<close>

theorem check_all_scaled_counts:
  "(check_all_scaled D N K \<longleftrightarrow>
      int (card {i. i < length D \<and> ready_replicas (D ! i) = N
                    \<and> model_api_ok (D ! i) = Some True}) = K)
   \<and> (model_api_ok d = Some False \<or> model_api_ok d = None \<longrightarrow>
        check_all_scaled (d # D) N K = check_all_scaled D N K)"
  by (auto simp add: check_all_scaled_def truthy_def length_filter_conv_card)

theorem check_all_scaled_counts_witness:
  "model_api_ok (dep ''y'' 2 None) = None
   \<and> check_all_scaled [dep ''y'' 2 None, dep ''m'' 2 (Some True)] 2 1
   \<and> \<not> check_all_scaled [dep ''y'' 2 None, dep ''m'' 2 (Some True)] 2 2"
  using check_all_scaled_counts [of "[dep ''m'' 2 (Some True)]" 2 1 "dep ''y'' 2 None"]
    check_all_scaled_counts [of "[dep ''m'' 2 (Some True)]" 2 2 "dep ''y'' 2 None"]
  by (simp add: dep_def check_all_scaled_def truthy_def)

text \<open>
  C6. The callback of \<^verbatim>\<open>undeploy_kubernetes\<close> is the one handed to the wait; it is
  true exactly on the empty filtered snapshot, and false on every non-empty one, whatever
  its descriptors are.
\<close>

theorem undeploy_callback_empty:
  "(undeploy_reply e (model_id a) (grace_period a) (model_version a) (ignore_not_found a)
        = Inr md \<longrightarrow>
      undeploy_kubernetes a e tr =
        wait_operation_finish a e md undeploy_callback (tr @ [UndeployRequest]))
   \<and> (truthy (undeploy_callback S) \<longleftrightarrow> S = [])
   \<and> \<not> truthy (undeploy_callback (d # ds))"
  by (simp add: undeploy_kubernetes_def undeploy_callback_def truthy_def list_truthy_def)

theorem undeploy_callback_empty_witness:
  "undeploy_reply sample_env (model_id sample_args) (grace_period sample_args)
       (model_version sample_args) (ignore_not_found sample_args) = Inr [dep ''m'' 0 None]
   \<and> undeploy_kubernetes sample_args sample_env [] =
        wait_operation_finish sample_args sample_env [dep ''m'' 0 None] undeploy_callback
          [UndeployRequest]
   \<and> truthy (undeploy_callback [])
   \<and> \<not> truthy (undeploy_callback [dep ''m'' 0 None])"
  using undeploy_callback_empty [of sample_env sample_args "[dep ''m'' 0 None]" "[]" "[]"
      "dep ''m'' 0 None" "[]"]
  by (simp add: sample_env_def)

section \<open>The wait\<close>

text \<open>
  C3. With the no-wait flag off and a timeout that is zero or negative, the wait raises
  the invalid-timeout exception; all it has done by then is read the clock once
  (\<^verbatim>\<open>start = time.time()\<close>): no status query, no callback call, no sleep.
\<close>

theorem wait_operation_finish_invalid_timeout:
  assumes "\<not> no_wait a" and "timeout a \<le> 0"
  shows "wait_operation_finish a edi_client model_deployments wait_callback tr =
           Some (Inl InvalidTimeout, tr @ [Clock])
         \<and> queries (tr @ [Clock]) = queries tr"
  using assms by (simp add: wait_operation_finish_def time_time_def count_simps)

theorem wait_operation_finish_invalid_timeout_witness:
  "\<not> no_wait (sample_args\<lparr>timeout := 0\<rparr>) \<and> timeout (sample_args\<lparr>timeout := 0\<rparr>) \<le> 0
   \<and> wait_operation_finish (sample_args\<lparr>timeout := 0\<rparr>) sample_env [] undeploy_callback [] =
        Some (Inl InvalidTimeout, [Clock])"
  using wait_operation_finish_invalid_timeout
    [of "sample_args\<lparr>timeout := 0\<rparr>" sample_env "[]" undeploy_callback "[]"]
  by (simp add: sample_args_def)

text \<open>
  C7, as the code has it. With the no-wait flag set the wait returns at once and does
  nothing: it reads no clock, sends no status query, calls no callback and does not look at
  the timeout.
\<close>

theorem wait_operation_finish_no_wait:
  assumes "no_wait a"
  shows "wait_operation_finish a edi_client model_deployments wait_callback tr = Some (Inr (), tr)"
  using assms by (simp add: wait_operation_finish_def)

theorem wait_operation_finish_no_wait_witness:
  "no_wait (sample_args\<lparr>no_wait := True, timeout := 0\<rparr>)
   \<and> wait_operation_finish (sample_args\<lparr>no_wait := True, timeout := 0\<rparr>) failing_env
        [dep ''m'' 0 None] (\<lambda>s. Some False) [] = Some (Inr (), [])"
  using wait_operation_finish_no_wait
    [of "sample_args\<lparr>no_wait := True, timeout := 0\<rparr>" failing_env "[dep ''m'' 0 None]"
        "\<lambda>s. Some False" "[]"]
  by (simp add: sample_args_def)

text \<open>
  C7, as the specification has it (one status check under the no-wait flag), fails: with
  the flag set, the wait on the sample client ends with a trace that holds no status
  query.
\<close>

theorem wait_operation_finish_no_wait_counterexample:
  "no_wait (sample_args\<lparr>no_wait := True\<rparr>)
   \<and> wait_operation_finish (sample_args\<lparr>no_wait := True\<rparr>) sample_env [dep ''m'' 0 None]
        undeploy_callback [] = Some (Inr (), [])
   \<and> queries [] \<noteq> 1"
  by (simp add: sample_args_def wait_operation_finish_def queries_def)

section \<open>The loop\<close>

text \<open>The four ways through the loop body.\<close>

lemma loop_body_timeout:
  "float_sub e (clock e (clock_reads tr)) start > real_of_int (timeout a) \<Longrightarrow>
   loop_body e a A cb start tr = (Some (Inl TimeOut), tr @ [Clock])"
  by (simp add: loop_body_def time_time_def)

lemma loop_body_query_fails:
  "\<not> float_sub e (clock e (clock_reads tr)) start > real_of_int (timeout a) \<Longrightarrow>
   inspect_reply e (queries tr) = Inl x \<Longrightarrow>
   loop_body e a A cb start tr = (Some (Inl x), tr @ [Clock, Inspect (Inl x)])"
  by (simp add: loop_body_def time_time_def get_related_Inl count_simps)

lemma loop_body_confirmed:
  "\<not> float_sub e (clock e (clock_reads tr)) start > real_of_int (timeout a) \<Longrightarrow>
   inspect_reply e (queries tr) = Inr S \<Longrightarrow> truthy (cb (affected_only A S)) \<Longrightarrow>
   loop_body e a A cb start tr =
     (Some (Inr ()), tr @ [Clock, Inspect (Inr S), Evaluate (affected_only A S) (cb (affected_only A S))])"
  by (simp add: loop_body_def time_time_def get_related_Inr count_simps Let_def)

lemma loop_body_again:
  "\<not> float_sub e (clock e (clock_reads tr)) start > real_of_int (timeout a) \<Longrightarrow>
   inspect_reply e (queries tr) = Inr S \<Longrightarrow> \<not> truthy (cb (affected_only A S)) \<Longrightarrow>
   loop_body e a A cb start tr =
     (None, tr @ [Clock, Inspect (Inr S), Evaluate (affected_only A S) (cb (affected_only A S)), Sleep])"
  by (simp add: loop_body_def time_time_def time_sleep_def get_related_Inr count_simps Let_def)

lemma wait_loop_unroll:
  assumes "\<forall>i<k. \<not> float_sub e (clock e (clock_reads tr + i)) start
        > real_of_int (timeout a)
              \<and> inspect_reply e (queries tr + i) = Inr (snap i)
              \<and> \<not> truthy (cb (affected_only A (snap i)))"
  shows "wait_loop e a A cb start tr = wait_loop e a A cb start (tr @ idle_rounds A cb snap k)"
  using assms
proof (induction k)
  case 0
  then show ?case by simp
next
  case (Suc k)
  let ?tr = "tr @ idle_rounds A cb snap k"
  have step: "loop_body e a A cb start ?tr =
     (None, ?tr @ [Clock, Inspect (Inr (snap k)),
        Evaluate (affected_only A (snap k)) (cb (affected_only A (snap k))), Sleep])"
    by (rule loop_body_again) (use Suc.prems in \<open>simp_all add: count_simps idle_rounds_counts\<close>)
  have "wait_loop e a A cb start tr = wait_loop e a A cb start ?tr"
    using Suc by simp
  also have "\<dots> = wait_loop e a A cb start (tr @ idle_rounds A cb snap (Suc k))"
    by (subst wait_loop.simps) (simp add: step)
  finally show ?case .
qed

lemma wait_loop_terminates:
  assumes "float_sub e (clock e (clock_reads tr + k)) start > real_of_int (timeout a)"
  shows "\<exists>r tr'. wait_loop e a A cb start tr = Some (r, tr')
           \<and> (r = Inr () \<or> r = Inl TimeOut
                \<or> (\<exists>n x. queries tr \<le> n \<and> inspect_reply e n = Inl x \<and> r = Inl x))"
  using assms
proof (induction k arbitrary: tr)
  case 0
  then show ?case
    by (subst wait_loop.simps) (simp add: loop_body_timeout)
next
  case (Suc k)
  show ?case
  proof (cases "float_sub e (clock e (clock_reads tr)) start > real_of_int (timeout a)")
    case True
    then show ?thesis by (subst wait_loop.simps) (simp add: loop_body_timeout)
  next
    case late: False
    show ?thesis
    proof (cases "inspect_reply e (queries tr)")
      case (Inl x)
      have "wait_loop e a A cb start tr = Some (Inl x, tr @ [Clock, Inspect (Inl x)])"
        by (subst wait_loop.simps) (simp add: loop_body_query_fails [where cb=cb and A=A, OF late Inl])
      with Inl show ?thesis by blast
    next
      case (Inr S)
      show ?thesis
      proof (cases "truthy (cb (affected_only A S))")
        case True
        show ?thesis
          by (subst wait_loop.simps) (simp add: loop_body_confirmed [where cb=cb and A=A, OF late Inr True])
      next
        case False
        let ?tr = "tr @ [Clock, Inspect (Inr S), Evaluate (affected_only A S) (cb (affected_only A S)), Sleep]"
        have "float_sub e (clock e (clock_reads ?tr + k)) start > real_of_int (timeout a)"
          using Suc.prems by (simp add: count_simps)
        from Suc.IH [OF this]
        obtain r tr' where rest: "wait_loop e a A cb start ?tr = Some (r, tr')"
          "r = Inr () \<or> r = Inl TimeOut
             \<or> (\<exists>n x. queries ?tr \<le> n \<and> inspect_reply e n = Inl x \<and> r = Inl x)"
          by blast
        have "wait_loop e a A cb start tr = Some (r, tr')"
          by (subst wait_loop.simps)
            (simp add: loop_body_again [where cb=cb and A=A, OF late Inr False] rest(1))
        moreover have "r = Inr () \<or> r = Inl TimeOut
             \<or> (\<exists>n x. queries tr \<le> n \<and> inspect_reply e n = Inl x \<and> r = Inl x)"
          using rest(2) by (auto simp add: count_simps)
        ultimately show ?thesis by blast
      qed
    qed
  qed
qed

lemma sample_env_simps:
  "clock sample_env n = real n"
  "float_sub sample_env x y = x - y"
  "inspect_reply sample_env n = Inr (sample_snap n)"
  by (simp_all add: sample_env_def sample_snap_def)

text \<open>
  C4, as the code has it. Let the loop be entered with trace \<open>tr\<close>. If in each of the
  first \<open>k\<close> passes the elapsed time the code computes is within the timeout, the status
  query returns and the callback is not true, and the elapsed time computed in pass \<open>k\<close>
  exceeds the timeout strictly, then the loop raises the time-out exception in pass \<open>k\<close>:
  the trace ends with that clock reading, and the status query of pass \<open>k\<close> is not sent, so
  the check comes before the query. Whenever some pass would compute an elapsed time above
  the timeout, the loop returns: with confirmation, with the time-out exception, or with
  the exception that a status query of the loop raised, which the loop does not catch.
\<close>

theorem wait_loop_times_out:
  "((\<forall>i<k. \<not> float_sub e (clock e (clock_reads tr + i)) start > real_of_int (timeout a)
            \<and> inspect_reply e (queries tr + i) = Inr (snap i)
            \<and> \<not> truthy (cb (affected_only A (snap i))))
     \<and> float_sub e (clock e (clock_reads tr + k)) start > real_of_int (timeout a) \<longrightarrow>
       wait_loop e a A cb start tr = Some (Inl TimeOut, tr @ idle_rounds A cb snap k @ [Clock])
       \<and> queries (tr @ idle_rounds A cb snap k @ [Clock]) = queries tr + k)
   \<and> ((\<exists>j. float_sub e (clock e (clock_reads tr + j)) start > real_of_int (timeout a)) \<longrightarrow>
       (\<exists>r tr'. wait_loop e a A cb start tr = Some (r, tr')
          \<and> (r = Inr () \<or> r = Inl TimeOut
               \<or> (\<exists>n x. queries tr \<le> n \<and> inspect_reply e n = Inl x \<and> r = Inl x))))"
proof (intro conjI impI)
  assume h: "(\<forall>i<k. \<not> float_sub e (clock e (clock_reads tr + i)) start
                      > real_of_int (timeout a)
            \<and> inspect_reply e (queries tr + i) = Inr (snap i)
            \<and> \<not> truthy (cb (affected_only A (snap i))))
     \<and> float_sub e (clock e (clock_reads tr + k)) start > real_of_int (timeout a)"
  let ?tr = "tr @ idle_rounds A cb snap k"
  have "wait_loop e a A cb start tr = wait_loop e a A cb start ?tr"
    using h by (intro wait_loop_unroll) blast
  also have "\<dots> = Some (Inl TimeOut, ?tr @ [Clock])"
  proof -
    have "loop_body e a A cb start ?tr = (Some (Inl TimeOut), ?tr @ [Clock])"
      by (rule loop_body_timeout) (use h in \<open>simp add: count_simps idle_rounds_counts\<close>)
    then show ?thesis by (subst wait_loop.simps) simp
  qed
  finally show "wait_loop e a A cb start tr =
      Some (Inl TimeOut, tr @ idle_rounds A cb snap k @ [Clock])"
    by simp
  show "queries (tr @ idle_rounds A cb snap k @ [Clock]) = queries tr + k"
    by (simp add: count_simps idle_rounds_counts)
next
  assume "\<exists>j. float_sub e (clock e (clock_reads tr + j)) start > real_of_int (timeout a)"
  then obtain j where
    "float_sub e (clock e (clock_reads tr + j)) start > real_of_int (timeout a)" ..
  from wait_loop_terminates [OF this, of A cb]
  show "\<exists>r tr'. wait_loop e a A cb start tr = Some (r, tr')
          \<and> (r = Inr () \<or> r = Inl TimeOut
               \<or> (\<exists>n x. queries tr \<le> n \<and> inspect_reply e n = Inl x \<and> r = Inl x))" .
qed

theorem wait_loop_times_out_witness:
  "wait_loop sample_env (sample_args\<lparr>timeout := 2\<rparr>) [dep ''m'' 0 None] undeploy_callback 0
       [Clock] =
     Some (Inl TimeOut,
       [Clock,
        Clock, Inspect (Inr (sample_snap 0)), Evaluate [dep ''m'' 1 (Some True)] (Some False),
        Sleep,
        Clock, Inspect (Inr (sample_snap 1)), Evaluate [dep ''m'' 1 (Some True)] (Some False),
        Sleep,
        Clock])
   \<and> (\<exists>r tr'. wait_loop sample_env (sample_args\<lparr>timeout := 2\<rparr>) [dep ''m'' 0 None]
                  undeploy_callback 0 [Clock] = Some (r, tr')
          \<and> (r = Inr () \<or> r = Inl TimeOut))"
proof -
  let ?a = "sample_args\<lparr>timeout := 2\<rparr>" and ?A = "[dep ''m'' 0 None]"
  have filtered: "affected_only ?A (sample_snap i) =
      (if i < 2 then [dep ''m'' 1 (Some True)] else [dep ''m'' 2 (Some True)])" for i
    by (simp add: affected_only_def sample_snap_def dep_def)
  have idle: "\<forall>i<Suc (Suc 0).
        \<not> float_sub sample_env (clock sample_env (clock_reads [Clock] + i)) 0
            > real_of_int (timeout ?a)
      \<and> inspect_reply sample_env (queries [Clock] + i) = Inr (sample_snap i)
      \<and> \<not> truthy (undeploy_callback (affected_only ?A (sample_snap i)))"
    by (simp add: sample_env_simps count_simps sample_args_def filtered undeploy_callback_def
          truthy_def list_truthy_def less_Suc_eq)
  have late: "float_sub sample_env (clock sample_env (clock_reads [Clock] + Suc (Suc 0))) 0
      > real_of_int (timeout ?a)"
    by (simp add: sample_env_simps count_simps sample_args_def)
  then have eventually: "\<exists>j. float_sub sample_env (clock sample_env (clock_reads [Clock] + j)) 0
      > real_of_int (timeout ?a)" ..
  note both = wait_loop_times_out [where k = "Suc (Suc 0)" and e = sample_env
      and tr = "[Clock]" and start = 0 and a = ?a and snap = sample_snap
      and cb = undeploy_callback and A = ?A]
  have run: "wait_loop sample_env ?a ?A undeploy_callback 0 [Clock] =
      Some (Inl TimeOut, [Clock] @ idle_rounds ?A undeploy_callback sample_snap (Suc (Suc 0))
        @ [Clock])"
    using both [THEN conjunct1] idle late by blast
  have ends: "\<exists>r tr'. wait_loop sample_env ?a ?A undeploy_callback 0 [Clock] = Some (r, tr')
      \<and> (r = Inr () \<or> r = Inl TimeOut
           \<or> (\<exists>n x. queries [Clock] \<le> n \<and> inspect_reply sample_env n = Inl x \<and> r = Inl x))"
    using both [THEN conjunct2] eventually by blast
  have "\<exists>r tr'. wait_loop sample_env ?a ?A undeploy_callback 0 [Clock] = Some (r, tr')
      \<and> (r = Inr () \<or> r = Inl TimeOut)"
    using ends by (simp add: sample_env_simps)
  moreover have "wait_loop sample_env ?a ?A undeploy_callback 0 [Clock] =
     Some (Inl TimeOut,
       [Clock,
        Clock, Inspect (Inr (sample_snap 0)), Evaluate [dep ''m'' 1 (Some True)] (Some False),
        Sleep,
        Clock, Inspect (Inr (sample_snap 1)), Evaluate [dep ''m'' 1 (Some True)] (Some False),
        Sleep,
        Clock])"
    using run by (simp add: filtered undeploy_callback_def list_truthy_def)
  ultimately show ?thesis by blast
qed

text \<open>
  C4, as the specification has it (the loop ends with confirmation or time-out whenever
  the clock comes to exceed the deadline), fails: on the client whose status query raises,
  with a timeout of 5 and a clock that exceeds it at its seventh reading, the loop ends in
  its first pass with the exception of the query, which is neither.
\<close>

theorem wait_loop_times_out_counterexample:
  "float_sub failing_env (clock failing_env (clock_reads [Clock] + 6)) 0
       > real_of_int (timeout sample_args)
   \<and> wait_loop failing_env sample_args [dep ''m'' 0 None] undeploy_callback 0 [Clock] =
       Some (Inl (ClientError ''unreachable''),
             [Clock, Clock, Inspect (Inl (ClientError ''unreachable''))])
   \<and> (Inl (ClientError ''unreachable'') :: error + unit) \<noteq> Inr ()
   \<and> (Inl (ClientError ''unreachable'') :: error + unit) \<noteq> Inl TimeOut"
proof -
  have "loop_body failing_env sample_args [dep ''m'' 0 None] undeploy_callback 0 [Clock] =
      (Some (Inl (ClientError ''unreachable'')),
       [Clock] @ [Clock, Inspect (Inl (ClientError ''unreachable''))])"
    by (rule loop_body_query_fails)
      (simp_all add: failing_env_def sample_args_def count_simps)
  then have "wait_loop failing_env sample_args [dep ''m'' 0 None] undeploy_callback 0 [Clock] =
       Some (Inl (ClientError ''unreachable''),
             [Clock, Clock, Inspect (Inl (ClientError ''unreachable''))])"
    by (subst wait_loop.simps) simp
  then show ?thesis
    by (simp add: failing_env_def sample_args_def count_simps)
qed

text \<open>
  C5. If the first \<open>k\<close> passes are within the timeout with a callback that is not true, and
  in pass \<open>k\<close> the callback is true on the filtered snapshot, the loop returns normally in
  pass \<open>k\<close>: the trace ends with that callback call, after \<open>k + 1\<close> status queries and
  \<open>k\<close> sleeps, none of them after the call.
\<close>

theorem wait_loop_confirms:
  assumes "\<forall>i<k. \<not> float_sub e (clock e (clock_reads tr + i)) start
        > real_of_int (timeout a)
              \<and> inspect_reply e (queries tr + i) = Inr (snap i)
              \<and> \<not> truthy (cb (affected_only A (snap i)))"
    and "\<not> float_sub e (clock e (clock_reads tr + k)) start > real_of_int (timeout a)"
    and "inspect_reply e (queries tr + k) = Inr S"
    and "truthy (cb (affected_only A S))"
  shows "wait_loop e a A cb start tr =
           Some (Inr (), tr @ idle_rounds A cb snap k @
                   [Clock, Inspect (Inr S), Evaluate (affected_only A S) (cb (affected_only A S))])
         \<and> queries (tr @ idle_rounds A cb snap k @
                   [Clock, Inspect (Inr S), Evaluate (affected_only A S) (cb (affected_only A S))])
             = queries tr + k + 1
         \<and> sleeps (tr @ idle_rounds A cb snap k @
                   [Clock, Inspect (Inr S), Evaluate (affected_only A S) (cb (affected_only A S))])
             = sleeps tr + k"
proof -
  let ?tr = "tr @ idle_rounds A cb snap k"
  have "wait_loop e a A cb start tr = wait_loop e a A cb start ?tr"
    using assms(1) by (rule wait_loop_unroll)
  also have "\<dots> = Some (Inr (), ?tr @
      [Clock, Inspect (Inr S), Evaluate (affected_only A S) (cb (affected_only A S))])"
  proof -
    have "loop_body e a A cb start ?tr = (Some (Inr ()), ?tr @
      [Clock, Inspect (Inr S), Evaluate (affected_only A S) (cb (affected_only A S))])"
      by (rule loop_body_confirmed) (use assms in \<open>simp_all add: count_simps idle_rounds_counts\<close>)
    then show ?thesis by (subst wait_loop.simps) simp
  qed
  finally show ?thesis by (simp add: count_simps idle_rounds_counts)
qed


theorem wait_loop_confirms_witness:
  "wait_loop sample_env sample_args [dep ''m'' 0 None]
       (\<lambda>s. Some (check_all_scaled s 2 1)) 0 [Clock] =
     Some (Inr (),
       [Clock,
        Clock, Inspect (Inr (sample_snap 0)), Evaluate [dep ''m'' 1 (Some True)] (Some False), Sleep,
        Clock, Inspect (Inr (sample_snap 1)), Evaluate [dep ''m'' 1 (Some True)] (Some False), Sleep,
        Clock, Inspect (Inr (sample_snap 2)), Evaluate [dep ''m'' 2 (Some True)] (Some True)])"
proof -
  let ?A = "[dep ''m'' 0 None]" and ?cb = "\<lambda>s. Some (check_all_scaled s 2 1)"
  have filtered: "affected_only ?A (sample_snap i) =
      (if i < 2 then [dep ''m'' 1 (Some True)] else [dep ''m'' 2 (Some True)])" for i
    by (simp add: affected_only_def sample_snap_def dep_def)
  have scaled: "\<not> check_all_scaled [dep ''m'' 1 (Some True)] 2 1"
    "check_all_scaled [dep ''m'' 2 (Some True)] 2 1"
    by (simp_all add: check_all_scaled_def dep_def truthy_def)
  have idle: "\<forall>i<Suc (Suc 0).
        \<not> float_sub sample_env (clock sample_env (clock_reads [Clock] + i)) 0
              > real_of_int (timeout sample_args)
      \<and> inspect_reply sample_env (queries [Clock] + i) = Inr (sample_snap i)
      \<and> \<not> truthy (?cb (affected_only ?A (sample_snap i)))"
    by (simp add: sample_env_simps count_simps sample_args_def filtered scaled
          truthy_def less_Suc_eq)
  have early: "\<not> float_sub sample_env (clock sample_env (clock_reads [Clock] + Suc (Suc 0))) 0
                 > real_of_int (timeout sample_args)"
    by (simp add: sample_env_simps count_simps sample_args_def)
  have reply: "inspect_reply sample_env (queries [Clock] + Suc (Suc 0)) = Inr (sample_snap 2)"
    by (simp add: sample_env_simps count_simps numeral_2_eq_2)
  have true: "truthy (?cb (affected_only ?A (sample_snap 2)))"
    by (simp add: filtered scaled truthy_def)
  from wait_loop_confirms [where k = "Suc (Suc 0)" and e = sample_env and tr = "[Clock]"
      and start = 0 and a = sample_args and snap = sample_snap and cb = ?cb and A = ?A
      and S = "sample_snap 2", OF idle early reply true]
  show ?thesis
    by (simp add: filtered scaled)
qed

section \<open>What each poll is filtered against\<close>

lemma snapshots_append: "snapshots (tr @ tr') = snapshots tr @ snapshots tr'"
  by (induction tr rule: snapshots.induct) simp_all

lemma evaluations_append: "evaluations (tr @ tr') = evaluations tr @ evaluations tr'"
  by (induction tr rule: evaluations.induct) simp_all

lemma polled_append: "polled A cb tr \<Longrightarrow> polled A cb tr' \<Longrightarrow> polled A cb (tr @ tr')"
  by (simp add: polled_def snapshots_append evaluations_append)

lemma loop_body_polled:
  "\<exists>new. snd (loop_body e a A cb start tr) = tr @ new \<and> polled A cb new"
proof (cases "float_sub e (clock e (clock_reads tr)) start > real_of_int (timeout a)")
  case True
  then show ?thesis by (simp add: loop_body_timeout polled_def)
next
  case early: False
  show ?thesis
  proof (cases "inspect_reply e (queries tr)")
    case (Inl x)
    show ?thesis
      by (simp add: loop_body_query_fails [where cb=cb and A=A, OF early Inl] polled_def)
  next
    case (Inr S)
    show ?thesis
    proof (cases "truthy (cb (affected_only A S))")
      case True
      show ?thesis
        by (simp add: loop_body_confirmed [where cb=cb and A=A, OF early Inr True] polled_def)
    next
      case False
      show ?thesis
        by (simp add: loop_body_again [where cb=cb and A=A, OF early Inr False] polled_def)
    qed
  qed
qed

lemma after_iterations_polled:
  "\<exists>new. after_iterations n e a A cb start tr = tr @ new \<and> polled A cb new"
proof (induction n arbitrary: tr)
  case 0
  show ?case by (simp add: polled_def)
next
  case (Suc n)
  obtain res tr1 where body: "loop_body e a A cb start tr = (res, tr1)"
    by (cases "loop_body e a A cb start tr")
  from loop_body_polled [of e a A cb start tr] body
  obtain new1 where new1: "tr1 = tr @ new1" "polled A cb new1" by auto
  show ?case
  proof (cases res)
    case None
    from Suc.IH [of tr1] obtain new2 where
      new2: "after_iterations n e a A cb start tr1 = tr1 @ new2" "polled A cb new2" by blast
    have "after_iterations (Suc n) e a A cb start tr = tr @ (new1 @ new2)"
      using body None new1 new2 by simp
    moreover have "polled A cb (new1 @ new2)"
      using new1 new2 by (simp add: polled_append)
    ultimately show ?thesis by blast
  next
    case (Some r)
    then have "after_iterations (Suc n) e a A cb start tr = tr @ new1"
      using body new1 by simp
    with new1 show ?thesis by blast
  qed
qed

lemma wait_loop_after_iterations:
  assumes "wait_loop e a A cb start tr = Some y"
  shows "\<exists>n. snd y = after_iterations n e a A cb start tr"
proof (rule wait_loop.raw_induct [OF _ assms], goal_cases)
  case (1 wl e a A cb start tr y)
  obtain res tr1 where body: "loop_body e a A cb start tr = (res, tr1)"
    by (cases "loop_body e a A cb start tr")
  show ?case
  proof (cases res)
    case None
    with 1(2) body have "wl e a A cb start tr1 = Some y" by simp
    from 1(1) [OF this] obtain n where "snd y = after_iterations n e a A cb start tr1"
      by blast
    then have "snd y = after_iterations (Suc n) e a A cb start tr"
      using body None by simp
    then show ?thesis ..
  next
    case (Some out)
    with 1(2) body have "snd y = tr1" by auto
    then have "snd y = after_iterations (Suc 0) e a A cb start tr"
      using body Some by simp
    then show ?thesis ..
  qed
qed

text \<open>
  C10. The loop is entered with the list \<open>A\<close> of affected deployments and trace \<open>tr\<close>.
  After any number of passes through the body, and at the end of the loop when it ends,
  the events added to the trace are such that the arguments of the callback calls are, in
  order, the snapshots the status queries returned, each filtered against the identities
  of that same \<open>A\<close>. The list is a parameter that every pass receives as it was given: the
  source neither assigns to it nor calls a method that changes it.
\<close>

theorem wait_loop_filters_against_same_identities:
  "(\<exists>new. after_iterations n e a A cb start tr = tr @ new
       \<and> map fst (evaluations new) =
           map (\<lambda>S. [d \<leftarrow> S. id_and_version d \<in> id_and_version ` set A]) (snapshots new))
   \<and> (wait_loop e a A cb start tr = Some (r, tr') \<longrightarrow>
       (\<exists>new. tr' = tr @ new
          \<and> map fst (evaluations new) =
              map (\<lambda>S. [d \<leftarrow> S. id_and_version d \<in> id_and_version ` set A]) (snapshots new)))"
proof -
  have ids: "polled A cb new \<Longrightarrow> map fst (evaluations new) =
      map (\<lambda>S. [d \<leftarrow> S. id_and_version d \<in> id_and_version ` set A]) (snapshots new)" for new
    by (simp add: polled_def affected_only_def comp_def)
  have first: "\<exists>new. after_iterations m e a A cb start tr = tr @ new
       \<and> map fst (evaluations new) =
           map (\<lambda>S. [d \<leftarrow> S. id_and_version d \<in> id_and_version ` set A]) (snapshots new)" for m
    using after_iterations_polled [of m e a A cb start tr] ids by blast
  show ?thesis
  proof (intro conjI impI)
    show "\<exists>new. after_iterations n e a A cb start tr = tr @ new
       \<and> map fst (evaluations new) =
           map (\<lambda>S. [d \<leftarrow> S. id_and_version d \<in> id_and_version ` set A]) (snapshots new)"
      by (rule first)
  next
    assume "wait_loop e a A cb start tr = Some (r, tr')"
    then obtain m where "tr' = after_iterations m e a A cb start tr"
      using wait_loop_after_iterations [of e a A cb start tr "(r, tr')"] by auto
    with first [of m] show "\<exists>new. tr' = tr @ new
          \<and> map fst (evaluations new) =
              map (\<lambda>S. [d \<leftarrow> S. id_and_version d \<in> id_and_version ` set A]) (snapshots new)"
      by simp
  qed
qed

theorem wait_loop_filters_against_same_identities_witness:
  "wait_loop sample_env sample_args [dep ''x'' 0 None] (\<lambda>s. Some (check_all_scaled s 2 1))
       0 [Clock] =
     Some (Inr (), [Clock, Clock, Inspect (Inr (sample_snap 0)),
                    Evaluate [dep ''x'' 2 (Some True)] (Some True)])
   \<and> (\<exists>new. [Clock, Clock, Inspect (Inr (sample_snap 0)),
               Evaluate [dep ''x'' 2 (Some True)] (Some True)] = [Clock] @ new
          \<and> map fst (evaluations new) =
              map (\<lambda>S. [d \<leftarrow> S. id_and_version d \<in> id_and_version ` set [dep ''x'' 0 None]])
                (snapshots new))"
proof -
  let ?A = "[dep ''x'' 0 None]" and ?cb = "\<lambda>s. Some (check_all_scaled s 2 1)"
  have filtered: "affected_only ?A (sample_snap 0) = [dep ''x'' 2 (Some True)]"
    by (simp add: affected_only_def sample_snap_def dep_def)
  have scaled: "check_all_scaled [dep ''x'' 2 (Some True)] 2 1"
    by (simp add: check_all_scaled_def dep_def truthy_def)
  have "loop_body sample_env sample_args ?A ?cb 0 [Clock] =
      (Some (Inr ()), [Clock] @ [Clock, Inspect (Inr (sample_snap 0)),
         Evaluate (affected_only ?A (sample_snap 0)) (?cb (affected_only ?A (sample_snap 0)))])"
    by (rule loop_body_confirmed)
      (simp_all add: sample_env_simps sample_args_def count_simps filtered scaled truthy_def)
  then have run: "wait_loop sample_env sample_args ?A ?cb 0 [Clock] =
     Some (Inr (), [Clock, Clock, Inspect (Inr (sample_snap 0)),
                    Evaluate [dep ''x'' 2 (Some True)] (Some True)])"
    by (subst wait_loop.simps) (simp add: filtered scaled)
  from wait_loop_filters_against_same_identities [where e = sample_env and a = sample_args
      and A = ?A and cb = ?cb and start = 0 and tr = "[Clock]" and r = "Inr ()"
      and tr' = "[Clock, Clock, Inspect (Inr (sample_snap 0)),
                    Evaluate [dep ''x'' 2 (Some True)] (Some True)]"] run
  show ?thesis by blast
qed

section \<open>The operations\<close>

text \<open>
  C8. When the mutation request of deploy, scale or undeploy raises, the operation ends
  with that exception and has done nothing but send the request: the wait is not entered,
  the clock is not read and no status query is sent.
\<close>

theorem dispatch_failure_surfaces:
  "(deploy_reply e (image_a a) (model_iam_role a) (scale a) (livenesstimeout a)
        (readinesstimeout a) = Inl exn \<longrightarrow>
      deploy_kubernetes a e tr = Some (Inl exn, tr @ [DeployRequest])
      \<and> queries (tr @ [DeployRequest]) = queries tr)
   \<and> (scale_reply e (model_id a) (scale a) (model_version a) = Inl exn \<longrightarrow>
      scale_kubernetes a e tr = Some (Inl exn, tr @ [ScaleRequest])
      \<and> queries (tr @ [ScaleRequest]) = queries tr)
   \<and> (undeploy_reply e (model_id a) (grace_period a) (model_version a) (ignore_not_found a)
        = Inl exn \<longrightarrow>
      undeploy_kubernetes a e tr = Some (Inl exn, tr @ [UndeployRequest])
      \<and> queries (tr @ [UndeployRequest]) = queries tr)"
  by (simp add: deploy_kubernetes_def scale_kubernetes_def undeploy_kubernetes_def count_simps)

theorem dispatch_failure_surfaces_witness:
  "deploy_kubernetes sample_args failing_env [] =
       Some (Inl (ClientError ''unreachable''), [DeployRequest])
   \<and> scale_kubernetes sample_args failing_env [] =
       Some (Inl (ClientError ''unreachable''), [ScaleRequest])
   \<and> undeploy_kubernetes sample_args failing_env [] =
       Some (Inl (ClientError ''unreachable''), [UndeployRequest])"
  using dispatch_failure_surfaces [of failing_env sample_args "ClientError ''unreachable''" "[]"]
  by (simp add: failing_env_def)

lemma affected_only_Nil: "affected_only [] S = []"
  by (simp add: affected_only_def)

lemma check_all_scaled_Nil: "check_all_scaled [] n 0"
  by (simp add: check_all_scaled_def)

lemma wait_first_poll_confirms:
  assumes "\<not> no_wait a" and "0 < timeout a"
    and "\<not> float_sub e (clock e (Suc (clock_reads tr))) (clock e (clock_reads tr))
          > real_of_int (timeout a)"
    and "inspect_reply e (queries tr) = Inr S"
    and "truthy (cb (affected_only A S))"
  shows "wait_operation_finish a e A cb tr =
           Some (Inr (), tr @ [Clock, Clock, Inspect (Inr S),
                   Evaluate (affected_only A S) (cb (affected_only A S))])"
proof -
  let ?tr = "tr @ [Clock]"
  have "loop_body e a A cb (clock e (clock_reads tr)) ?tr =
      (Some (Inr ()), ?tr @ [Clock, Inspect (Inr S),
         Evaluate (affected_only A S) (cb (affected_only A S))])"
    by (rule loop_body_confirmed) (use assms in \<open>simp_all add: count_simps\<close>)
  then have "wait_loop e a A cb (clock e (clock_reads tr)) ?tr =
      Some (Inr (), ?tr @ [Clock, Inspect (Inr S),
         Evaluate (affected_only A S) (cb (affected_only A S))])"
    by (subst wait_loop.simps) simp
  then show ?thesis
    using assms(1,2) by (simp add: wait_operation_finish_def time_time_def)
qed

text \<open>
  C9. Deploy and scale hand the wait a callback that compares against the length of the
  list the request returned. The callback is true exactly when the number of positions of
  the filtered snapshot with \<^verbatim>\<open>args.scale\<close> ready replicas and a true
  \<^verbatim>\<open>model_api_ok\<close> equals that length. When the request returns the empty list and the
  first poll takes place (the no-wait flag is off, the timeout is positive, the first
  elapsed time is within it and the status query returns), that poll confirms: the
  operation returns after one status query, with no sleep.
\<close>

theorem expected_count_is_length:
  "(deploy_reply e (image_a a) (model_iam_role a) (scale a) (livenesstimeout a)
        (readinesstimeout a) = Inr md \<longrightarrow>
      deploy_kubernetes a e tr =
        wait_operation_finish a e md
          (\<lambda>S. Some (check_all_scaled S (scale a) (int (length md)))) (tr @ [DeployRequest]))
   \<and> (scale_reply e (model_id a) (scale a) (model_version a) = Inr md \<longrightarrow>
      scale_kubernetes a e tr =
        wait_operation_finish a e md
          (\<lambda>S. Some (check_all_scaled S (scale a) (int (length md)))) (tr @ [ScaleRequest]))
   \<and> (truthy (Some (check_all_scaled S (scale a) (int (length md)))) \<longleftrightarrow>
        card {i. i < length S \<and> ready_replicas (S ! i) = scale a
                 \<and> model_api_ok (S ! i) = Some True} = length md)
   \<and> (deploy_reply e (image_a a) (model_iam_role a) (scale a) (livenesstimeout a)
          (readinesstimeout a) = Inr []
       \<and> \<not> no_wait a \<and> 0 < timeout a
       \<and> \<not> float_sub e (clock e (Suc (clock_reads tr))) (clock e (clock_reads tr))
             > real_of_int (timeout a)
       \<and> inspect_reply e (queries tr) = Inr S \<longrightarrow>
      deploy_kubernetes a e tr =
        Some (Inr (), tr @ [DeployRequest, Clock, Clock, Inspect (Inr S), Evaluate [] (Some True)]))
   \<and> (scale_reply e (model_id a) (scale a) (model_version a) = Inr []
       \<and> \<not> no_wait a \<and> 0 < timeout a
       \<and> \<not> float_sub e (clock e (Suc (clock_reads tr))) (clock e (clock_reads tr))
             > real_of_int (timeout a)
       \<and> inspect_reply e (queries tr) = Inr S \<longrightarrow>
      scale_kubernetes a e tr =
        Some (Inr (), tr @ [ScaleRequest, Clock, Clock, Inspect (Inr S), Evaluate [] (Some True)]))"
proof (intro conjI impI)
  show "truthy (Some (check_all_scaled S (scale a) (int (length md)))) \<longleftrightarrow>
        card {i. i < length S \<and> ready_replicas (S ! i) = scale a
                 \<and> model_api_ok (S ! i) = Some True} = length md"
    by (simp add: check_all_scaled_def truthy_def length_filter_conv_card)
next
  assume "deploy_reply e (image_a a) (model_iam_role a) (scale a) (livenesstimeout a)
        (readinesstimeout a) = Inr md"
  then show "deploy_kubernetes a e tr =
        wait_operation_finish a e md
          (\<lambda>S. Some (check_all_scaled S (scale a) (int (length md)))) (tr @ [DeployRequest])"
    by (simp add: deploy_kubernetes_def)
next
  assume "scale_reply e (model_id a) (scale a) (model_version a) = Inr md"
  then show "scale_kubernetes a e tr =
        wait_operation_finish a e md
          (\<lambda>S. Some (check_all_scaled S (scale a) (int (length md)))) (tr @ [ScaleRequest])"
    by (simp add: scale_kubernetes_def)
next
  assume h: "deploy_reply e (image_a a) (model_iam_role a) (scale a) (livenesstimeout a)
          (readinesstimeout a) = Inr []
       \<and> \<not> no_wait a \<and> 0 < timeout a
       \<and> \<not> float_sub e (clock e (Suc (clock_reads tr))) (clock e (clock_reads tr))
             > real_of_int (timeout a)
       \<and> inspect_reply e (queries tr) = Inr S"
  let ?cb = "\<lambda>S. Some (check_all_scaled S (scale a) (int (length ([]::deployment list))))"
  have "wait_operation_finish a e [] ?cb (tr @ [DeployRequest]) =
      Some (Inr (), (tr @ [DeployRequest]) @ [Clock, Clock, Inspect (Inr S),
         Evaluate (affected_only [] S) (?cb (affected_only [] S))])"
    by (rule wait_first_poll_confirms)
      (use h in \<open>simp_all add: count_simps affected_only_Nil check_all_scaled_Nil truthy_def\<close>)
  then show "deploy_kubernetes a e tr =
        Some (Inr (), tr @ [DeployRequest, Clock, Clock, Inspect (Inr S), Evaluate [] (Some True)])"
    using h by (simp add: deploy_kubernetes_def affected_only_Nil check_all_scaled_Nil)
next
  assume h: "scale_reply e (model_id a) (scale a) (model_version a) = Inr []
       \<and> \<not> no_wait a \<and> 0 < timeout a
       \<and> \<not> float_sub e (clock e (Suc (clock_reads tr))) (clock e (clock_reads tr))
             > real_of_int (timeout a)
       \<and> inspect_reply e (queries tr) = Inr S"
  let ?cb = "\<lambda>S. Some (check_all_scaled S (scale a) (int (length ([]::deployment list))))"
  have "wait_operation_finish a e [] ?cb (tr @ [ScaleRequest]) =
      Some (Inr (), (tr @ [ScaleRequest]) @ [Clock, Clock, Inspect (Inr S),
         Evaluate (affected_only [] S) (?cb (affected_only [] S))])"
    by (rule wait_first_poll_confirms)
      (use h in \<open>simp_all add: count_simps affected_only_Nil check_all_scaled_Nil truthy_def\<close>)
  then show "scale_kubernetes a e tr =
        Some (Inr (), tr @ [ScaleRequest, Clock, Clock, Inspect (Inr S), Evaluate [] (Some True)])"
    using h by (simp add: scale_kubernetes_def affected_only_Nil check_all_scaled_Nil)
qed

theorem expected_count_is_length_witness:
  "deploy_kubernetes sample_args idle_env [] =
     Some (Inr (), [DeployRequest, Clock, Clock, Inspect (Inr (sample_snap 0)),
                    Evaluate [] (Some True)])
   \<and> scale_kubernetes sample_args idle_env [] =
     Some (Inr (), [ScaleRequest, Clock, Clock, Inspect (Inr (sample_snap 0)),
                    Evaluate [] (Some True)])
   \<and> \<not> truthy (Some (check_all_scaled [dep ''m'' 2 (Some True)] (scale sample_args)
                        (int (length [dep ''m'' 0 None, dep ''m'' 0 None]))))"
proof -
  have idle: "deploy_reply idle_env (image_a sample_args) (model_iam_role sample_args)
        (scale sample_args) (livenesstimeout sample_args) (readinesstimeout sample_args) = Inr []"
    "scale_reply idle_env (model_id sample_args) (scale sample_args) (model_version sample_args)
       = Inr []"
    "\<not> no_wait sample_args" "0 < timeout sample_args"
    "\<not> float_sub idle_env (clock idle_env (Suc (clock_reads []))) (clock idle_env (clock_reads []))
         > real_of_int (timeout sample_args)"
    "inspect_reply idle_env (queries []) = Inr (sample_snap 0)"
    by (simp_all add: idle_env_def sample_args_def count_simps)
  have twice: "\<not> truthy (Some (check_all_scaled [dep ''m'' 2 (Some True)] (scale sample_args)
                        (int (length [dep ''m'' 0 None, dep ''m'' 0 None]))))"
    by (simp add: check_all_scaled_def truthy_def dep_def sample_args_def)
  note all = expected_count_is_length [where e = idle_env and a = sample_args and tr = "[]"
      and md = "[]" and S = "sample_snap 0"]
  have deployed: "deploy_kubernetes sample_args idle_env [] =
     Some (Inr (), [DeployRequest, Clock, Clock, Inspect (Inr (sample_snap 0)),
                    Evaluate [] (Some True)])"
    using all [THEN conjunct2, THEN conjunct2, THEN conjunct2, THEN conjunct1] idle by simp
  have scaled: "scale_kubernetes sample_args idle_env [] =
     Some (Inr (), [ScaleRequest, Clock, Clock, Inspect (Inr (sample_snap 0)),
                    Evaluate [] (Some True)])"
    using all [THEN conjunct2, THEN conjunct2, THEN conjunct2, THEN conjunct2] idle by simp
  show ?thesis
    using deployed scaled twice by blast
qed

end
